theory Spec2Isabelle
  imports Complex_Main "HOL-Library.AList" "HOL-Library.Sublist"
begin

section \<open>Python values and exceptions\<close>

text \<open>
  The handlers of \<^verbatim>\<open>checkplotserver_handlers.py\<close> pass around untyped Python values:
  the project manifest and the request payloads are parsed JSON, a checkplot record is an
  unpickled dict (with string keys and the integer keys 0, 1, 2 inside a period-finder
  entry), and a response envelope is a dict literal. One datatype covers them. A dict is
  an association list in insertion order with distinct keys; keys are compared
  structurally (the handlers only look up string keys and the small integers 0, 1, 2).
  \<open>PArray\<close> is a one-dimensional numpy array, of which the code only reads \<open>.size\<close>.
\<close>

datatype pyval =
    PNone
  | PBool bool
  | PInt int
  | PFloat rat
  | PStr string
  | PBytes string
  | PList "pyval list"
  | PDict "(pyval \<times> pyval) list"
  | PArray "rat list"

datatype exn =
    KeyError pyval
  | IndexError
  | TypeError
  | ValueError
  | AttributeError
  | IOError string
  | UnpicklingError
  | RuntimeError string
  | RenderError

text \<open>Pure computations that may raise: \<open>Inl\<close> is the exception.\<close>

definition ebind :: "exn + 'a \<Rightarrow> ('a \<Rightarrow> exn + 'b) \<Rightarrow> exn + 'b" where
  "ebind m f = (case m of Inl e \<Rightarrow> Inl e | Inr x \<Rightarrow> f x)"

text \<open>The position an index denotes in a sequence of length \<open>n\<close>: an index from
  \<open>-n\<close> to \<open>-1\<close> counts from the end, and an index outside \<open>-n .. n-1\<close> denotes
  none.\<close>

definition position :: "nat \<Rightarrow> int \<Rightarrow> nat option" where
  "position n i =
     (if int n \<le> i \<or> i < - int n then None
      else if i < 0 then Some (nat (int n + i))
      else Some (nat i))"

definition seq_index :: "'a list \<Rightarrow> int \<Rightarrow> exn + 'a" where
  "seq_index xs i =
     (case position (length xs) i of None \<Rightarrow> Inl IndexError | Some j \<Rightarrow> Inr (xs ! j))"

text \<open>\<^verbatim>\<open>c[k]\<close>\<close>

fun getitem :: "pyval \<Rightarrow> pyval \<Rightarrow> exn + pyval" where
  "getitem (PDict kvs) k = (case map_of kvs k of Some v \<Rightarrow> Inr v | None \<Rightarrow> Inl (KeyError k))"
| "getitem (PList xs) (PInt i) = seq_index xs i"
| "getitem (PStr s) (PInt i) = ebind (seq_index s i) (\<lambda>c. Inr (PStr [c]))"
| "getitem (PBytes s) (PInt i) = ebind (seq_index s i) (\<lambda>c. Inr (PInt (int (of_char c))))"
| "getitem (PArray xs) (PInt i) = ebind (seq_index xs i) (\<lambda>x. Inr (PFloat x))"
| "getitem c k = Inl TypeError"

text \<open>\<^verbatim>\<open>k in c\<close>: key membership for a dict, element membership for a list, substring
  for a string. The handlers test string keys only.\<close>

fun contains :: "pyval \<Rightarrow> pyval \<Rightarrow> exn + bool" where
  "contains (PDict kvs) k = Inr (k \<in> fst ` set kvs)"
| "contains (PList xs) k = Inr (k \<in> set xs)"
| "contains (PStr s) (PStr k) = Inr (sublist k s)"
| "contains (PBytes s) (PBytes k) = Inr (sublist k s)"
| "contains (PArray xs) (PFloat k) = Inr (k \<in> set xs)"
| "contains c k = Inl TypeError"

text \<open>\<^verbatim>\<open>c[k] = v\<close>, returning the mutated container. A dict keeps the position of an
  existing key and appends a new one.\<close>

fun setitem :: "pyval \<Rightarrow> pyval \<Rightarrow> pyval \<Rightarrow> exn + pyval" where
  "setitem (PDict kvs) k v = Inr (PDict (AList.update k v kvs))"
| "setitem (PList xs) (PInt i) v =
     (case position (length xs) i of
        None \<Rightarrow> Inl IndexError
      | Some j \<Rightarrow> Inr (PList (xs[j := v])))"
| "setitem c k v = Inl TypeError"

text \<open>\<^verbatim>\<open>x.decode() if isinstance(x, bytes)\<close>: the stored images are base64 text, which
  always decodes.\<close>

definition decode_if_bytes :: "pyval \<Rightarrow> pyval" where
  "decode_if_bytes v = (case v of PBytes s \<Rightarrow> PStr s | _ \<Rightarrow> v)"

text \<open>\<^verbatim>\<open>a.size\<close> of a numpy array; any other value has no such attribute.\<close>

fun array_size :: "pyval \<Rightarrow> exn + pyval" where
  "array_size (PArray xs) = Inr (PInt (int (length xs)))"
| "array_size v = Inl AttributeError"

text \<open>The fields of a dict, for reading an envelope.\<close>

fun field :: "pyval \<Rightarrow> string \<Rightarrow> pyval option" where
  "field (PDict kvs) k = map_of kvs (PStr k)"
| "field v k = None"

fun keys :: "pyval \<Rightarrow> pyval list" where
  "keys (PDict kvs) = map fst kvs"
| "keys v = []"

section \<open>Strings and paths\<close>

text \<open>\<^verbatim>\<open>tornado.escape.xhtml_escape\<close> (Tornado 4): the five characters
  \<^verbatim>\<open>& < > " '\<close> become entities.\<close>

fun xhtml_escape :: "string \<Rightarrow> string" where
  "xhtml_escape [] = []"
| "xhtml_escape (c # cs) =
     (if c = CHR ''&'' then ''&amp;''
      else if c = CHR ''<'' then ''&lt;''
      else if c = CHR ''>'' then ''&gt;''
      else if c = CHR 0x22 then ''&quot;''
      else if c = CHR 0x27 then ''&#39;''
      else [c]) @ xhtml_escape cs"

text \<open>\<^verbatim>\<open>posixpath.dirname\<close>: everything up to the last slash, trailing slashes
  stripped unless the head is only slashes.\<close>

definition dirname :: "string \<Rightarrow> string" where
  "dirname p =
     (let head = rev (dropWhile (\<lambda>c. c \<noteq> CHR ''/'') (rev p))
      in if head \<noteq> [] \<and> head \<noteq> replicate (length head) (CHR ''/'')
         then rev (dropWhile (\<lambda>c. c = CHR ''/'') (rev head))
         else head)"

text \<open>\<^verbatim>\<open>posixpath.join(a, b)\<close>: an absolute \<open>b\<close> replaces \<open>a\<close>.\<close>

definition path_join :: "string \<Rightarrow> string \<Rightarrow> string" where
  "path_join a b =
     (if b \<noteq> [] \<and> hd b = CHR ''/'' then b
      else if a = [] \<or> last a = CHR ''/'' then a @ b
      else a @ ''/'' @ b)"

text \<open>\<^verbatim>\<open>s.replace('.pkl', '.png')\<close>: every occurrence, left to right.\<close>

fun replace_pkl_png :: "string \<Rightarrow> string" where
  "replace_pkl_png (a # b # c # d # rest) =
     (if [a, b, c, d] = ''.pkl'' then ''.png'' @ replace_pkl_png rest
      else a # replace_pkl_png (b # c # d # rest))"
| "replace_pkl_png s = s"

section \<open>The world a handler runs in\<close>

text \<open>
  A handler is constructed by \<^verbatim>\<open>initialize(currentdir, assetpath, cplist, cplistfile,
  executor, readonly)\<close>. The handlers modelled here read \<open>cplistfile\<close> and \<open>readonly\<close>;
  \<open>cplist\<close> is the shared in-memory project dict, and \<open>executor\<close> the worker pool, both
  part of the mutable world below.
\<close>

record handler =
  cplistfile :: string
  readonly :: bool

text \<open>The query or body arguments of a request, as \<^verbatim>\<open>get_argument(name, default=None)\<close>
  returns them.\<close>

record request =
  arguments :: "string \<rightharpoonup> string"

text \<open>
  Library functions the handlers call and which are parameters of the model:
  \<open>b64decode\<close> turns the URL token into text (\<open>None\<close> when \<^verbatim>\<open>base64.b64decode\<close> or the
  decoding to text raises), \<open>json_loads\<close> is \<^verbatim>\<open>json.loads\<close> (\<open>None\<close> when it raises),
  \<open>float_of_text\<close> is \<^verbatim>\<open>float\<close> on a text (\<open>None\<close> when it raises), \<open>abspath\<close> is \<^verbatim>\<open>os.path.abspath\<close>, \<open>clock\<close> is the value of \<^verbatim>\<open>time.time()\<close>, and
  \<open>render\<close> is the image renderer behind \<^verbatim>\<open>checkplot_pickle_to_png\<close>.
\<close>

datatype render_result = Rendered string | NoOutput | RenderRaises

record host =
  b64decode :: "string \<Rightarrow> string option"
  json_loads :: "string \<Rightarrow> pyval option"
  float_of_text :: "string \<Rightarrow> rat option"
  abspath :: "string \<Rightarrow> string"
  clock :: rat
  render :: "pyval \<Rightarrow> render_result"

text \<open>\<^verbatim>\<open>float(x)\<close>: a number is converted, a text is parsed, a one-element array gives
  its element, and anything else is a \<^verbatim>\<open>TypeError\<close>.\<close>

definition parse_float :: "host \<Rightarrow> string \<Rightarrow> exn + pyval" where
  "parse_float H s =
     (case float_of_text H s of None \<Rightarrow> Inl ValueError | Some r \<Rightarrow> Inr (PFloat r))"

fun pyfloat :: "host \<Rightarrow> pyval \<Rightarrow> exn + pyval" where
  "pyfloat H (PFloat r) = Inr (PFloat r)"
| "pyfloat H (PInt i) = Inr (PFloat (of_int i))"
| "pyfloat H (PBool b) = Inr (PFloat (if b then 1 else 0))"
| "pyfloat H (PArray [x]) = Inr (PFloat x)"
| "pyfloat H (PStr s) = parse_float H s"
| "pyfloat H (PBytes s) = parse_float H s"
| "pyfloat H v = Inl TypeError"

text \<open>What a file on storage holds: a pickled record, the JSON text of a value, a
  rendered image, or bytes that are none of these.\<close>

datatype stored = PickleFile pyval | JsonFile pyval | PngFile string | OtherFile string

text \<open>The units of work handed to the worker pool.\<close>

datatype task =
    ReadPickle string
  | PickleUpdate string pyval
  | PickleToPng string string

text \<open>
  \<open>fs\<close> is the storage, keyed by the path a file is opened with (every file below has one
  path, absolute and normalised), \<open>currentproject\<close> the shared manifest dict, \<open>submitted\<close> the log of
  \<^verbatim>\<open>executor.submit\<close> calls. The rest is the state of Tornado's \<^verbatim>\<open>RequestHandler\<close> for
  the request being served: the status code, the chunks written so far, whether
  \<^verbatim>\<open>finish()\<close> has been called, and the response that went out when it was.
\<close>

record world =
  fs :: "string \<rightharpoonup> stored"
  currentproject :: pyval
  submitted :: "task list"
  status_code :: nat
  chunks :: "pyval list"
  finished :: bool
  sent :: "(nat \<times> pyval list) option"

text \<open>A statement: it runs on a world and either raises or returns, with the world as
  it was left in both cases.\<close>

type_synonym 'a action = "world \<Rightarrow> (exn + 'a) \<times> world"

definition ret :: "'a \<Rightarrow> 'a action" where
  "ret x = (\<lambda>w. (Inr x, w))"

definition raise :: "exn \<Rightarrow> 'a action" where
  "raise e = (\<lambda>w. (Inl e, w))"

definition lift :: "exn + 'a \<Rightarrow> 'a action" where
  "lift r = (\<lambda>w. (r, w))"

definition bind :: "'a action \<Rightarrow> ('a \<Rightarrow> 'b action) \<Rightarrow> 'b action" where
  "bind m f = (\<lambda>w. case m w of (Inl e, w') \<Rightarrow> (Inl e, w') | (Inr x, w') \<Rightarrow> f x w')"

definition seq :: "unit action \<Rightarrow> 'a action \<Rightarrow> 'a action" where
  "seq m n = bind m (\<lambda>_. n)"

fun block :: "unit action list \<Rightarrow> unit action" where
  "block [] = ret ()"
| "block (m # ms) = seq m (block ms)"

definition whenever :: "bool \<Rightarrow> unit action \<Rightarrow> unit action" where
  "whenever b m = (if b then m else ret ())"

text \<open>\<^verbatim>\<open>try: m except Exception as e: h\<close>\<close>

definition try_except :: "'a action \<Rightarrow> (exn \<Rightarrow> 'a action) \<Rightarrow> 'a action" where
  "try_except m h = (\<lambda>w. case m w of (Inl e, w') \<Rightarrow> h e w' | (Inr x, w') \<Rightarrow> (Inr x, w'))"

subsection \<open>Tornado's request handler\<close>

text \<open>
  \<^verbatim>\<open>set_status\<close> stores the code. \<^verbatim>\<open>write\<close> raises
  \<^verbatim>\<open>RuntimeError("Cannot write() after finish()")\<close> once the request is finished and
  \<^verbatim>\<open>TypeError\<close> for a chunk that is not a dict, a string or bytes; otherwise it appends
  the chunk to the buffer. The buffer keeps the chunk as the Python value it is: the JSON
  text of a dict is not modelled. \<^verbatim>\<open>finish\<close> raises
  \<^verbatim>\<open>RuntimeError("finish() called twice")\<close> the second time, and otherwise sends the
  status and the buffer. None of them returns from the calling method: the statements
  after \<^verbatim>\<open>self.finish()\<close> run.
\<close>

definition set_status :: "nat \<Rightarrow> unit action" where
  "set_status c = (\<lambda>w. (Inr (), w\<lparr>status_code := c\<rparr>))"

fun writable :: "pyval \<Rightarrow> bool" where
  "writable (PDict kvs) = True"
| "writable (PStr s) = True"
| "writable (PBytes s) = True"
| "writable v = False"

definition self_write :: "pyval \<Rightarrow> unit action" where
  "self_write chunk = (\<lambda>w.
     if finished w then (Inl (RuntimeError ''Cannot write() after finish()''), w)
     else if writable chunk then (Inr (), w\<lparr>chunks := chunks w @ [chunk]\<rparr>)
     else (Inl TypeError, w))"

definition finish :: "unit action" where
  "finish = (\<lambda>w.
     if finished w then (Inl (RuntimeError ''finish() called twice''), w)
     else (Inr (), w\<lparr>finished := True, sent := Some (status_code w, chunks w)\<rparr>))"

text \<open>A method that returns without having finished is finished by Tornado; an exception
  that leaves the method reaches Tornado as it is.\<close>

definition serve :: "unit action \<Rightarrow> unit action" where
  "serve m = (\<lambda>w. case m w of
       (Inl e, w') \<Rightarrow> (Inl e, w')
     | (Inr u, w') \<Rightarrow> (if finished w' then (Inr u, w') else finish w'))"

text \<open>A fresh request on a given storage and manifest.\<close>

definition fresh :: "(string \<rightharpoonup> stored) \<Rightarrow> pyval \<Rightarrow> world" where
  "fresh f p = \<lparr>fs = f, currentproject = p, submitted = [], status_code = 200,
                chunks = [], finished = False, sent = None\<rparr>"

subsection \<open>Storage and arguments\<close>

text \<open>\<^verbatim>\<open>os.path.exists(p)\<close>\<close>

definition path_exists :: "string \<Rightarrow> bool action" where
  "path_exists p = (\<lambda>w. (Inr (fs w p \<noteq> None), w))"

text \<open>Truth value of an argument that is a string or \<open>None\<close>.\<close>

definition arg_truthy :: "string option \<Rightarrow> bool" where
  "arg_truthy a = (case a of None \<Rightarrow> False | Some s \<Rightarrow> s \<noteq> [])"

text \<open>\<^verbatim>\<open>not a\<close> for such an argument.\<close>

definition arg_falsy :: "string option \<Rightarrow> bool" where
  "arg_falsy a = (case a of None \<Rightarrow> True | Some s \<Rightarrow> s = [])"

text \<open>\<^verbatim>\<open>xhtml_escape(a)\<close> and \<^verbatim>\<open>json.loads(a)\<close> raise \<^verbatim>\<open>TypeError\<close> on \<open>None\<close>.\<close>

definition xhtml_escape_arg :: "string option \<Rightarrow> exn + string" where
  "xhtml_escape_arg a = (case a of None \<Rightarrow> Inl TypeError | Some s \<Rightarrow> Inr (xhtml_escape s))"

definition json_loads_arg :: "host \<Rightarrow> string option \<Rightarrow> exn + pyval" where
  "json_loads_arg H a =
     (case a of None \<Rightarrow> Inl TypeError
      | Some s \<Rightarrow> (case json_loads H s of None \<Rightarrow> Inl ValueError | Some v \<Rightarrow> Inr v))"

definition b64_text :: "host \<Rightarrow> string \<Rightarrow> exn + string" where
  "b64_text H tok = (case b64decode H tok of None \<Rightarrow> Inl ValueError | Some s \<Rightarrow> Inr s)"

text \<open>The envelope every handler builds: a dict literal with these four keys.\<close>

definition envelope :: "string \<Rightarrow> string \<Rightarrow> bool \<Rightarrow> pyval \<Rightarrow> pyval" where
  "envelope st msg ro res =
     PDict [(PStr ''status'', PStr st), (PStr ''message'', PStr msg),
            (PStr ''readonly'', PBool ro), (PStr ''result'', res)]"

section \<open>CheckplotListHandler\<close>

text \<open>The statements of \<^verbatim>\<open>self.currentproject\<close>: read, and store back after an item
  assignment.\<close>

definition get_project :: "pyval action" where
  "get_project = (\<lambda>w. (Inr (currentproject w), w))"

definition put_project :: "pyval \<Rightarrow> unit action" where
  "put_project p = (\<lambda>w. (Inr (), w\<lparr>currentproject := p\<rparr>))"

text \<open>
  \<^verbatim>\<open>if not 'reviewed' in self.currentproject: self.currentproject['reviewed'] = {}\<close>
\<close>

definition ensure_reviewed :: "unit action" where
  "ensure_reviewed =
     bind get_project (\<lambda>p.
     bind (lift (contains p (PStr ''reviewed''))) (\<lambda>present.
     whenever (\<not> present)
       (bind (lift (setitem p (PStr ''reviewed'') (PDict []))) put_project)))"

text \<open>\<^verbatim>\<open>CheckplotListHandler.get\<close>\<close>

definition cplist_get :: "unit action" where
  "cplist_get =
     seq ensure_reviewed
       (bind get_project self_write)"

text \<open>\<^verbatim>\<open>with open(self.cplistfile,'w') as outfd: json.dump(self.currentproject, outfd)\<close>\<close>

definition dump_project :: "handler \<Rightarrow> unit action" where
  "dump_project h = (\<lambda>w. (Inr (), w\<lparr>fs := (fs w)(cplistfile h \<mapsto> JsonFile (currentproject w))\<rparr>))"

definition readonly_msg :: string where
  "readonly_msg = ''checkplotserver is in readonly mode. no updates allowed.''"

text \<open>\<^verbatim>\<open>self.currentproject['reviewed'][objectid] = changes\<close>\<close>

definition set_reviewed :: "string \<Rightarrow> pyval \<Rightarrow> unit action" where
  "set_reviewed objectid changes =
     bind get_project (\<lambda>p.
     bind (lift (getitem p (PStr ''reviewed''))) (\<lambda>r.
     bind (lift (setitem r (PStr objectid) changes)) (\<lambda>r'.
     bind (lift (setitem p (PStr ''reviewed'') r')) put_project)))"

text \<open>\<^verbatim>\<open>CheckplotListHandler.post\<close>\<close>

definition cplist_post :: "host \<Rightarrow> handler \<Rightarrow> request \<Rightarrow> unit action" where
  "cplist_post H h req =
     seq (whenever (readonly h)
            (block [set_status 400,
                    self_write (envelope ''error'' readonly_msg (readonly h) PNone),
                    finish]))
     (let objectid = arguments req ''objectid'';
          changes = arguments req ''changes''
      in
      seq (whenever (arg_falsy objectid \<or> arg_falsy changes)
             (block [self_write (envelope ''error''
                       ''could not parse changes to the checkplot filelist from the frontend''
                       (readonly h) PNone),
                     finish]))
      (bind (lift (xhtml_escape_arg objectid)) (\<lambda>objectid.
       bind (lift (json_loads_arg H changes)) (\<lambda>changes.
       block [ensure_reviewed,
              set_reviewed objectid changes,
              dump_project h,
              self_write (envelope ''success''
                       (''wrote all changes to the checkplot filelist from the frontend for object: ''
                          @ objectid)
                       (readonly h)
                       (PDict [(PStr ''objectid'', PStr objectid), (PStr ''changes'', changes)]))]))))"

section \<open>The worker pool and its tasks\<close>

text \<open>\<^verbatim>\<open>bool(v)\<close>; numpy refuses the truth value of an array with several elements.\<close>

fun truthy :: "pyval \<Rightarrow> exn + bool" where
  "truthy PNone = Inr False"
| "truthy (PBool b) = Inr b"
| "truthy (PInt i) = Inr (i \<noteq> 0)"
| "truthy (PFloat r) = Inr (r \<noteq> 0)"
| "truthy (PStr s) = Inr (s \<noteq> [])"
| "truthy (PBytes s) = Inr (s \<noteq> [])"
| "truthy (PList xs) = Inr (xs \<noteq> [])"
| "truthy (PDict kvs) = Inr (kvs \<noteq> [])"
| "truthy (PArray []) = Inr False"
| "truthy (PArray [x]) = Inr (x \<noteq> 0)"
| "truthy (PArray xs) = Inl ValueError"

text \<open>
  Modelled from the spec: \<^verbatim>\<open>_read_checkplot_picklefile\<close> lives in the \<^verbatim>\<open>checkplot\<close>
  module, which is not among the sources. The spec gives the record codec as
  \<open>decode(path) -> Record\<close> and \<open>load(identifier) -> Record | NotFound\<close>: the record
  stored at the path is returned, a missing file and bytes that are not a record raise.
\<close>

definition read_checkplot_picklefile :: "string \<Rightarrow> pyval action" where
  "read_checkplot_picklefile p = (\<lambda>w.
     case fs w p of
       None \<Rightarrow> (Inl (IOError p), w)
     | Some (PickleFile r) \<Rightarrow> (Inr r, w)
     | Some _ \<Rightarrow> (Inl UnpicklingError, w))"

text \<open>\<^verbatim>\<open>cur.update(upd)\<close> on two dicts: the keys of \<open>upd\<close> are overlaid on \<open>cur\<close> in
  order.\<close>

fun dict_update :: "pyval \<Rightarrow> pyval \<Rightarrow> exn + pyval" where
  "dict_update (PDict cur) (PDict upd) =
     Inr (PDict (fold (\<lambda>kv. AList.update (fst kv) (snd kv)) upd cur))"
| "dict_update c u = Inl TypeError"

text \<open>
  Modelled from the spec: \<^verbatim>\<open>checkplot_pickle_update\<close> lives in the \<^verbatim>\<open>checkplot\<close>
  module, which is not among the sources. The spec describes it as the read-modify-write
  \<open>save\<close>: it "loads the current on-disk Record, overlays only the caller-supplied
  editable fields [...] and writes the merged Record back", all or nothing, and the
  update operation answers with "the merged record's identifying path". A record that
  cannot be loaded yields the error result \<open>None\<close>, which the handler tests for.
\<close>

definition checkplot_pickle_update :: "string \<Rightarrow> pyval \<Rightarrow> pyval action" where
  "checkplot_pickle_update p upd = (\<lambda>w.
     case fs w p of
       None \<Rightarrow> (Inr PNone, w)
     | Some (PickleFile cur) \<Rightarrow>
         (case dict_update cur upd of
            Inl e \<Rightarrow> (Inl e, w)
          | Inr merged \<Rightarrow> (Inr (PStr p), w\<lparr>fs := (fs w)(p \<mapsto> PickleFile merged)\<rparr>))
     | Some _ \<Rightarrow> (Inl UnpicklingError, w))"

text \<open>
  Modelled from the spec: \<^verbatim>\<open>checkplot_pickle_to_png\<close> lives in the \<^verbatim>\<open>checkplot\<close>
  module, which is not among the sources. The spec gives the image renderer as
  \<open>render(Record) -> blob\<close> and counts a renderer error among the backend failures: the
  record at the first path is rendered and the image stored at the second path. A render
  that fails stores nothing; it either returns \<open>None\<close> or raises.
\<close>

definition checkplot_pickle_to_png :: "host \<Rightarrow> string \<Rightarrow> string \<Rightarrow> pyval action" where
  "checkplot_pickle_to_png H p png = (\<lambda>w.
     case fs w p of
       Some (PickleFile r) \<Rightarrow>
         (case render H r of
            Rendered img \<Rightarrow> (Inr (PStr png), w\<lparr>fs := (fs w)(png \<mapsto> PngFile img)\<rparr>)
          | NoOutput \<Rightarrow> (Inr PNone, w)
          | RenderRaises \<Rightarrow> (Inl RenderError, w))
     | _ \<Rightarrow> (Inr PNone, w))"

fun run_task :: "host \<Rightarrow> task \<Rightarrow> pyval action" where
  "run_task H (ReadPickle p) = read_checkplot_picklefile p"
| "run_task H (PickleUpdate p upd) = checkplot_pickle_update p upd"
| "run_task H (PickleToPng p png) = checkplot_pickle_to_png H p png"

text \<open>
  \<^verbatim>\<open>yield self.executor.submit(f, args)\<close>: the task is handed to the pool, which is
  logged, and the coroutine resumes with the task's result, or with the exception the
  task raised. One request is followed at a time, so the task runs at once.
\<close>

definition submit :: "host \<Rightarrow> task \<Rightarrow> pyval action" where
  "submit H t = (\<lambda>w. run_task H t (w\<lparr>submitted := submitted w @ [t]\<rparr>))"

section \<open>CheckplotHandler\<close>

text \<open>\<^verbatim>\<open>os.path.join(os.path.abspath(os.path.dirname(self.cplistfile)), name)\<close>\<close>

definition project_path :: "host \<Rightarrow> handler \<Rightarrow> string \<Rightarrow> string" where
  "project_path H h name = path_join (abspath H (dirname (cplistfile h))) name"

text \<open>The envelope of \<^verbatim>\<open>get\<close> for a record file that is not there: a dict literal
  with three keys.\<close>

definition notfound_envelope :: "string \<Rightarrow> pyval" where
  "notfound_envelope cpfpath =
     PDict [(PStr ''status'', PStr ''error''),
            (PStr ''message'', PStr (''couldn't find checkplot '' @ cpfpath)),
            (PStr ''result'', PNone)]"

text \<open>\<^verbatim>\<open>cpdict[key][n]['plot']\<close>, decoded when it is bytes.\<close>

definition plot_of :: "pyval \<Rightarrow> int \<Rightarrow> exn + pyval" where
  "plot_of entry n =
     ebind (getitem entry (PInt n)) (\<lambda>lc.
     ebind (getitem lc (PStr ''plot'')) (\<lambda>p.
     Inr (decode_if_bytes p)))"

text \<open>The \<^verbatim>\<open>'phasedlcN'\<close> entry of the result.\<close>

definition phasedlc :: "host \<Rightarrow> pyval \<Rightarrow> int \<Rightarrow> pyval \<Rightarrow> exn + pyval" where
  "phasedlc H entry n plot =
     ebind (getitem entry (PInt n)) (\<lambda>lc.
     ebind (getitem lc (PStr ''period'')) (\<lambda>p.
     ebind (pyfloat H p) (\<lambda>period.
     ebind (getitem entry (PInt n)) (\<lambda>lc'.
     ebind (getitem lc' (PStr ''epoch'')) (\<lambda>e.
     ebind (pyfloat H e) (\<lambda>epoch.
     Inr (PDict [(PStr ''plot'', plot), (PStr ''period'', period),
                 (PStr ''epoch'', epoch)])))))))"

text \<open>The body of the loop over the period-finder keys, for a key that is in the
  record.\<close>

definition pfmethod_result :: "host \<Rightarrow> pyval \<Rightarrow> pyval \<Rightarrow> exn + pyval" where
  "pfmethod_result H cpdict key =
     ebind (getitem cpdict key) (\<lambda>entry.
     ebind (getitem entry (PStr ''periodogram'')) (\<lambda>pg.
     ebind (plot_of entry 0) (\<lambda>phasedlc0plot.
     ebind (plot_of entry 1) (\<lambda>phasedlc1plot.
     ebind (plot_of entry 2) (\<lambda>phasedlc2plot.
     ebind (getitem entry (PStr ''nbestperiods'')) (\<lambda>nbestperiods.
     ebind (getitem entry (PStr ''bestperiod'')) (\<lambda>bestperiod.
     ebind (phasedlc H entry 0 phasedlc0plot) (\<lambda>lc0.
     ebind (phasedlc H entry 1 phasedlc1plot) (\<lambda>lc1.
     ebind (phasedlc H entry 2 phasedlc2plot) (\<lambda>lc2.
     Inr (PDict [(PStr ''nbestperiods'', nbestperiods),
                 (PStr ''periodogram'', decode_if_bytes pg),
                 (PStr ''bestperiod'', bestperiod),
                 (PStr ''phasedlc0'', lc0),
                 (PStr ''phasedlc1'', lc1),
                 (PStr ''phasedlc2'', lc2)])))))))))))"

text \<open>\<^verbatim>\<open>for key in ('pdm','aov','bls','gls','sls'): if key in cpdict:
  resultdict['result'][key] = {...}\<close>\<close>

fun add_pfmethods :: "host \<Rightarrow> pyval \<Rightarrow> pyval list \<Rightarrow> pyval \<Rightarrow> exn + pyval" where
  "add_pfmethods H cpdict [] resultdict = Inr resultdict"
| "add_pfmethods H cpdict (key # ks) resultdict =
     ebind (contains cpdict key) (\<lambda>present.
       if present then
         ebind (pfmethod_result H cpdict key) (\<lambda>m.
         ebind (getitem resultdict (PStr ''result'')) (\<lambda>res.
         ebind (setitem res key m) (\<lambda>res'.
         ebind (setitem resultdict (PStr ''result'') res') (\<lambda>resultdict'.
         add_pfmethods H cpdict ks resultdict'))))
       else add_pfmethods H cpdict ks resultdict)"

definition pfkeys :: "pyval list" where
  "pfkeys = [PStr ''pdm'', PStr ''aov'', PStr ''bls'', PStr ''gls'', PStr ''sls'']"

text \<open>The response of \<^verbatim>\<open>get\<close> for a record that was read, in the order the source
  evaluates it.\<close>

definition load_result :: "host \<Rightarrow> handler \<Rightarrow> string \<Rightarrow> pyval \<Rightarrow> exn + pyval" where
  "load_result H h fname cpdict =
     ebind (getitem cpdict (PStr ''objectid'')) (\<lambda>objectid.
     ebind (getitem cpdict (PStr ''objectinfo'')) (\<lambda>objectinfo.
     ebind (getitem cpdict (PStr ''varinfo'')) (\<lambda>varinfo.
     ebind (contains cpdict (PStr ''comments'')) (\<lambda>has_comments.
     ebind (if has_comments then getitem cpdict (PStr ''comments'') else Inr PNone)
       (\<lambda>objectcomments.
     ebind (getitem cpdict (PStr ''finderchart'')) (\<lambda>finderchart.
     ebind (getitem cpdict (PStr ''magseries'')) (\<lambda>ms.
     ebind (getitem ms (PStr ''plot'')) (\<lambda>magseries.
     ebind (getitem cpdict (PStr ''status'')) (\<lambda>cpstatus.
     ebind (getitem cpdict (PStr ''magseries'')) (\<lambda>ms'.
     ebind (getitem ms' (PStr ''times'')) (\<lambda>times.
     ebind (array_size times) (\<lambda>ndet.
     add_pfmethods H cpdict pfkeys
       (envelope ''ok'' (''found checkplot '' @ fname) (readonly h)
          (PDict [(PStr ''objectid'', objectid),
                  (PStr ''objectinfo'', objectinfo),
                  (PStr ''objectcomments'', objectcomments),
                  (PStr ''varinfo'', varinfo),
                  (PStr ''finderchart'', decode_if_bytes finderchart),
                  (PStr ''magseries'', decode_if_bytes magseries),
                  (PStr ''magseries_ndet'', ndet),
                  (PStr ''cpstatus'', cpstatus)]))))))))))))))"

text \<open>\<^verbatim>\<open>name in self.currentproject['checkplots']\<close>\<close>

definition in_project :: "string \<Rightarrow> bool action" where
  "in_project name =
     bind get_project (\<lambda>p.
     bind (lift (getitem p (PStr ''checkplots''))) (\<lambda>cps.
     lift (contains cps (PStr name))))"

definition doesnt_exist_msg :: string where
  "doesnt_exist_msg = ''This checkplot doesn't exist.''"

text \<open>\<^verbatim>\<open>CheckplotHandler.get\<close>\<close>

definition cp_get :: "host \<Rightarrow> handler \<Rightarrow> string \<Rightarrow> unit action" where
  "cp_get H h checkplotfname =
     (if checkplotfname \<noteq> [] then
        bind (lift (b64_text H checkplotfname)) (\<lambda>decoded.
        let fname = xhtml_escape decoded in
        bind (in_project fname) (\<lambda>member.
        if member then
          let cpfpath = project_path H h fname in
          seq (bind (path_exists cpfpath) (\<lambda>ex.
                 whenever (\<not> ex)
                   (block [self_write (notfound_envelope cpfpath), finish])))
          (bind (submit H (ReadPickle cpfpath)) (\<lambda>cpdict.
           bind (lift (load_result H h fname cpdict)) (\<lambda>resultdict.
           block [self_write resultdict, finish])))
        else
          block [self_write (envelope ''error'' doesnt_exist_msg (readonly h) PNone),
                 finish]))
      else
        self_write (envelope ''error'' ''No checkplot provided to load.'' (readonly h) PNone))"

text \<open>\<^verbatim>\<open>resultdict['result']['cpfpng'] = v\<close>\<close>

definition set_cpfpng :: "pyval \<Rightarrow> pyval \<Rightarrow> exn + pyval" where
  "set_cpfpng resultdict v =
     ebind (getitem resultdict (PStr ''result'')) (\<lambda>res.
     ebind (setitem res (PStr ''cpfpng'') v) (\<lambda>res'.
     setitem resultdict (PStr ''result'') res'))"

definition png_failed :: string where
  "png_failed = ''png making failed''"

text \<open>\<^verbatim>\<open>os.path.abspath(cpfpath.replace('.pkl','.png'))\<close>\<close>

definition png_path :: "host \<Rightarrow> string \<Rightarrow> string" where
  "png_path H cpfpath = abspath H (replace_pkl_png cpfpath)"

text \<open>The \<^verbatim>\<open>savetopng\<close> trigger of \<^verbatim>\<open>post\<close>: the render task is awaited, its
  result \<^verbatim>\<open>pngdone\<close> is not looked at, and the envelope is filled in by whether a file
  is at the image path.\<close>

definition save_png :: "host \<Rightarrow> string \<Rightarrow> pyval \<Rightarrow> pyval action" where
  "save_png H cpfpath resultdict =
     (let cpfpng = png_path H cpfpath in
      bind (submit H (PickleToPng cpfpath cpfpng)) (\<lambda>pngdone.
      bind (path_exists cpfpng) (\<lambda>ex.
      lift (set_cpfpng resultdict (if ex then PStr cpfpng else PStr png_failed)))))"

text \<open>The envelope of a successful update; \<^verbatim>\<open>'cpfpng'\<close> starts as \<open>None\<close>.\<close>

definition update_envelope :: "host \<Rightarrow> handler \<Rightarrow> pyval \<Rightarrow> pyval \<Rightarrow> pyval \<Rightarrow> pyval" where
  "update_envelope H h updated cpcontents cpfpng =
     envelope ''success'' ''checkplot update successful'' (readonly h)
       (PDict [(PStr ''checkplot'', updated),
               (PStr ''unixtime'', PFloat (clock H)),
               (PStr ''changes'', cpcontents),
               (PStr ''cpfpng'', cpfpng)])"

text \<open>The \<^verbatim>\<open>try\<close> block of \<^verbatim>\<open>post\<close> from line 321 on, once \<^verbatim>\<open>self.cpfile\<close> is
  set.\<close>

definition cp_post_try :: "host \<Rightarrow> handler \<Rightarrow> request \<Rightarrow> string \<Rightarrow> unit action" where
  "cp_post_try H h req self_cpfile =
     (let cpcontents = arguments req ''cpcontents'';
          savetopng = arguments req ''savetopng''
      in
      seq (whenever (self_cpfile = [] \<or> arg_falsy cpcontents)
             (block [set_status 400,
                     self_write (envelope ''error''
                       ''did not receive a checkplot update payload'' (readonly h) PNone),
                     finish]))
      (bind (lift (json_loads_arg H cpcontents)) (\<lambda>cpcontents.
       bind (lift (getitem cpcontents (PStr ''varinfo''))) (\<lambda>varinfo.
       bind (lift (getitem cpcontents (PStr ''objectinfo''))) (\<lambda>objectinfo.
       bind (lift (getitem cpcontents (PStr ''comments''))) (\<lambda>comments.
       let updated = PDict [(PStr ''varinfo'', varinfo),
                            (PStr ''objectinfo'', objectinfo),
                            (PStr ''comments'', comments)];
           cpfpath = project_path H h self_cpfile
       in
       seq (bind (path_exists cpfpath) (\<lambda>ex.
              whenever (\<not> ex)
                (block [self_write (envelope ''error''
                          (''couldn't find checkplot '' @ cpfpath) (readonly h) PNone),
                        finish])))
       (bind (submit H (PickleUpdate cpfpath updated)) (\<lambda>updated.
        bind (lift (truthy updated)) (\<lambda>ok.
        if ok then
          bind (let resultdict = update_envelope H h updated cpcontents PNone
                in if arg_truthy savetopng then save_png H cpfpath resultdict
                   else ret resultdict) (\<lambda>resultdict.
          block [self_write resultdict, finish])
        else
          block [set_status 500,
                 self_write (envelope ''error''
                   ''checkplot update failed because of a backend error'' (readonly h) PNone),
                 finish])))))))))"

text \<open>The \<^verbatim>\<open>except Exception\<close> clause of \<^verbatim>\<open>post\<close>, after its log line.\<close>

definition cp_post_except :: "handler \<Rightarrow> unit action" where
  "cp_post_except h =
     block [set_status 500,
            self_write (envelope ''error''
              ''checkplot update failed because of an exception'' (readonly h) PNone),
            finish]"

text \<open>
  \<^verbatim>\<open>CheckplotHandler.post\<close>. The first statement of the \<^verbatim>\<open>try\<close> block assigns
  \<^verbatim>\<open>self.cpfile\<close>; when it raises, the \<^verbatim>\<open>except\<close> clause is entered with
  \<^verbatim>\<open>self.cpfile\<close> unset, and the clause's log line, which reads it, raises
  \<^verbatim>\<open>AttributeError\<close>.
\<close>

definition cp_post :: "host \<Rightarrow> handler \<Rightarrow> request \<Rightarrow> string \<Rightarrow> unit action" where
  "cp_post H h req cpfile =
     seq (whenever (readonly h)
            (block [set_status 400,
                    self_write (envelope ''error'' readonly_msg (readonly h) PNone),
                    finish]))
     (bind (try_except (lift (b64_text H cpfile)) (\<lambda>e. raise AttributeError))
        (\<lambda>self_cpfile.
      try_except (cp_post_try H h req self_cpfile) (\<lambda>e. cp_post_except h)))"

section \<open>LCToolHandler\<close>

text \<open>\<^verbatim>\<open>LCToolHandler.get\<close>: the method ends after the record is read; the tool and its
  arguments are not looked at.\<close>

definition lctool_get :: "host \<Rightarrow> handler \<Rightarrow> request \<Rightarrow> string \<Rightarrow> unit action" where
  "lctool_get H h req cpfile =
     (if cpfile \<noteq> [] then
        bind (lift (b64_text H cpfile)) (\<lambda>decoded.
        let self_cpfile = xhtml_escape decoded in
        bind (in_project self_cpfile) (\<lambda>member.
        if member then
          let cpfpath = project_path H h self_cpfile in
          seq (bind (path_exists cpfpath) (\<lambda>ex.
                 whenever (\<not> ex)
                   (block [self_write (notfound_envelope cpfpath), finish])))
          (bind (submit H (ReadPickle cpfpath)) (\<lambda>cpdict. ret ()))
        else
          block [self_write (envelope ''error'' doesnt_exist_msg (readonly h) PNone),
                 finish]))
      else
        self_write (envelope ''error'' ''No checkplot provided to load.'' (readonly h) PNone))"

section \<open>Reading the storage\<close>

text \<open>The value of a top-level field of the record held by a file, if the file holds a
  record and the record has the field.\<close>

fun stored_field :: "stored option \<Rightarrow> pyval \<Rightarrow> pyval option" where
  "stored_field (Some (PickleFile (PDict kvs))) k = map_of kvs k"
| "stored_field st k = None"

section \<open>A project to run the handlers on\<close>

text \<open>
  The project of the spec's scenarios: the manifest lists \<^verbatim>\<open>obj1.pkl\<close> and
  \<^verbatim>\<open>obj2.pkl\<close>, and the list file is \<^verbatim>\<open>/p/checkplot-filelist.json\<close>. The host
  decodes the base64 tokens of three names, parses two payloads, and has a renderer that
  produces nothing.
\<close>

definition scenario_manifest :: pyval where
  "scenario_manifest =
     PDict [(PStr ''checkplots'', PList [PStr ''obj1.pkl'', PStr ''obj2.pkl''])]"

definition scenario_handler :: "bool \<Rightarrow> handler" where
  "scenario_handler ro = \<lparr>cplistfile = ''/p/checkplot-filelist.json'', readonly = ro\<rparr>"

definition scenario_payload :: pyval where
  "scenario_payload =
     PDict [(PStr ''varinfo'', PDict [(PStr ''vartags'', PStr ''EB'')]),
            (PStr ''objectinfo'', PDict [(PStr ''objecttags'', PStr ''star'')]),
            (PStr ''comments'', PList [PStr ''looks periodic''])]"

definition dq :: "string \<Rightarrow> string" where
  "dq s = [CHR 0x22] @ s @ [CHR 0x22]"

definition scenario_payload_text :: string where
  "scenario_payload_text =
     ''{'' @ dq ''varinfo'' @ '': {'' @ dq ''vartags'' @ '': '' @ dq ''EB'' @ ''}, ''
       @ dq ''objectinfo'' @ '': {'' @ dq ''objecttags'' @ '': '' @ dq ''star'' @ ''}, ''
       @ dq ''comments'' @ '': ['' @ dq ''looks periodic'' @ '']}''"

definition scenario_host :: host where
  "scenario_host =
     \<lparr>b64decode = (\<lambda>t. if t = ''b2JqMS5wa2w='' then Some ''obj1.pkl''
                        else if t = ''b2JqMi5wa2w='' then Some ''obj2.pkl''
                        else if t = ''enp6LnBrbA=='' then Some ''zzz.pkl''
                        else None),
      json_loads = (\<lambda>s. if s = ''{}'' then Some (PDict [])
                         else if s = scenario_payload_text then Some scenario_payload
                         else None),
      float_of_text = (\<lambda>s. if s = ''1.0'' then Some 1 else None),
      abspath = (\<lambda>p. p),
      clock = 1500000000,
      render = (\<lambda>r. NoOutput)\<rparr>"

text \<open>A record as the analysis pipeline leaves it, with one period-finder entry.\<close>

definition scenario_phased :: "string \<Rightarrow> rat \<Rightarrow> pyval" where
  "scenario_phased img p =
     PDict [(PStr ''plot'', PBytes img), (PStr ''period'', PFloat p),
            (PStr ''epoch'', PFloat 5)]"

definition scenario_fields :: "(pyval \<times> pyval) list" where
  "scenario_fields =
           [(PStr ''objectid'', PStr ''obj1''),
            (PStr ''objectinfo'', PDict [(PStr ''ndet'', PInt 2)]),
            (PStr ''varinfo'', PDict []),
            (PStr ''finderchart'', PBytes ''FC''),
            (PStr ''magseries'',
               PDict [(PStr ''plot'', PBytes ''MS''), (PStr ''times'', PArray [1, 2])]),
            (PStr ''status'', PStr ''ok''),
            (PStr ''bls'',
               PDict [(PStr ''periodogram'', PBytes ''PG''),
                      (PStr ''nbestperiods'', PList [PFloat 1, PFloat 2, PFloat 3]),
                      (PStr ''bestperiod'', PFloat 1),
                      (PInt 0, scenario_phased ''L0'' 1),
                      (PInt 1, scenario_phased ''L1'' 2),
                      (PInt 2, scenario_phased ''L2'' 3)])]"

definition scenario_record :: pyval where
  "scenario_record = PDict scenario_fields"

text \<open>A storage that holds the record of \<^verbatim>\<open>obj1.pkl\<close> and nothing else, and the
  arguments of an update of it with the payload of the spec's scenario D.\<close>

definition scenario_fs :: "string \<rightharpoonup> stored" where
  "scenario_fs = [''/p/obj1.pkl'' \<mapsto> PickleFile scenario_record]"

definition scenario_update :: request where
  "scenario_update = \<lparr>arguments = [''cpcontents'' \<mapsto> scenario_payload_text]\<rparr>"

definition scenario_update_png :: request where
  "scenario_update_png =
     \<lparr>arguments = [''cpcontents'' \<mapsto> scenario_payload_text, ''savetopng'' \<mapsto> ''true'']\<rparr>"

definition scenario_update_empty :: request where
  "scenario_update_empty = \<lparr>arguments = [''cpcontents'' \<mapsto> ''{}'']\<rparr>"

text \<open>The same storage with an image left by an earlier render, and a tool request for
  a BLS period search whose start period is above its end period.\<close>

definition scenario_fs_png :: "string \<rightharpoonup> stored" where
  "scenario_fs_png = scenario_fs(''/p/obj1.png'' \<mapsto> PngFile ''earlier'')"

text \<open>
  Two more hosts: one whose renderer raises, and one whose renderer produces an image and
  which also decodes the token of \<^verbatim>\<open>rec\<close>, a record file whose name has no
  \<^verbatim>\<open>.pkl\<close> in it, held by the storage \<open>scenario_fs_rec\<close>.
\<close>

definition scenario_host_raising :: host where
  "scenario_host_raising = scenario_host\<lparr>render := (\<lambda>r. RenderRaises)\<rparr>"

definition scenario_host_image :: host where
  "scenario_host_image =
     scenario_host\<lparr>b64decode := (\<lambda>t. if t = ''cmVj'' then Some ''rec''
                                       else b64decode scenario_host t),
                    render := (\<lambda>r. Rendered ''IMG'')\<rparr>"

definition scenario_fs_rec :: "string \<rightharpoonup> stored" where
  "scenario_fs_rec = [''/p/rec'' \<mapsto> PickleFile scenario_record]"

definition scenario_bls :: request where
  "scenario_bls =
     \<lparr>arguments = [''lctool'' \<mapsto> ''psearch-bls'', ''startp'' \<mapsto> ''5.0'',
                   ''endp'' \<mapsto> ''1.0'']\<rparr>"

section \<open>Rules for running the handlers\<close>

lemmas action_defs = ret_def raise_def lift_def bind_def seq_def whenever_def try_except_def
  set_status_def self_write_def finish_def path_exists_def get_project_def put_project_def

lemmas task_defs = submit_def read_checkplot_picklefile_def checkplot_pickle_update_def
  checkplot_pickle_to_png_def

lemmas post_defs = cp_post_def cp_post_try_def cp_post_except_def b64_text_def
  json_loads_arg_def arg_truthy_def arg_falsy_def save_png_def set_cpfpng_def update_envelope_def
  envelope_def ebind_def

lemmas get_defs = cp_get_def lctool_get_def in_project_def b64_text_def notfound_envelope_def
  envelope_def project_path_def dirname_def path_join_def

lemmas scenario_defs = scenario_host_def scenario_manifest_def scenario_handler_def
  scenario_payload_def scenario_payload_text_def scenario_record_def scenario_phased_def
  dq_def scenario_fields_def scenario_fs_def scenario_update_def scenario_update_png_def
  scenario_update_empty_def scenario_fs_png_def scenario_bls_def scenario_host_raising_def
  scenario_host_image_def scenario_fs_rec_def

lemma writable_envelope [simp]: "writable (envelope st msg ro res)"
  by (simp add: envelope_def)

lemma writable_notfound_envelope [simp]: "writable (notfound_envelope q)"
  by (simp add: notfound_envelope_def)

lemma update_fresh_key: "k \<notin> fst ` set al \<Longrightarrow> AList.update k v al = al @ [(k, v)]"
  by (induction al) auto


lemma scenario_decode: "b64decode scenario_host ''b2JqMS5wa2w='' = Some ''obj1.pkl''"
  by (simp add: scenario_host_def)

lemma scenario_parse_empty: "json_loads scenario_host ''{}'' = Some (PDict [])"
  by (simp add: scenario_host_def)

section \<open>The manifest read\<close>

text \<open>
  C10. \<^verbatim>\<open>CheckplotListHandler.get\<close> is not free of side effects. On a manifest dict the
  read succeeds, touches no file, and answers with the shared manifest as it is after the
  read; that manifest has a \<^verbatim>\<open>'reviewed'\<close> key in every case, and when the key was
  missing before the read, the shared dict has been extended by an empty
  \<^verbatim>\<open>'reviewed'\<close> dict, although no write operation was invoked.
\<close>

theorem cplist_get_inserts_reviewed:
  assumes "currentproject w = PDict kvs" and "\<not> finished w"
  shows "fst (cplist_get w) = Inr ()
       \<and> contains (currentproject (snd (cplist_get w))) (PStr ''reviewed'') = Inr True
       \<and> chunks (snd (cplist_get w)) = chunks w @ [currentproject (snd (cplist_get w))]
       \<and> fs (snd (cplist_get w)) = fs w
       \<and> (PStr ''reviewed'' \<notin> fst ` set kvs \<longrightarrow>
            currentproject (snd (cplist_get w))
              = PDict (kvs @ [(PStr ''reviewed'', PDict [])]))"
  using assms
  by (auto simp: cplist_get_def ensure_reviewed_def action_defs update_fresh_key image_iff)

theorem cplist_get_inserts_reviewed_witness:
  "currentproject (snd (cplist_get (fresh scenario_fs scenario_manifest)))
     = PDict [(PStr ''checkplots'', PList [PStr ''obj1.pkl'', PStr ''obj2.pkl'']),
              (PStr ''reviewed'', PDict [])]
   \<and> currentproject (snd (cplist_get (fresh scenario_fs scenario_manifest)))
       \<noteq> currentproject (fresh scenario_fs scenario_manifest)
   \<and> chunks (snd (cplist_get (fresh scenario_fs scenario_manifest)))
       = [PDict [(PStr ''checkplots'', PList [PStr ''obj1.pkl'', PStr ''obj2.pkl'']),
                 (PStr ''reviewed'', PDict [])]]"
proof -
  have h1: "currentproject (fresh scenario_fs scenario_manifest)
              = PDict [(PStr ''checkplots'', PList [PStr ''obj1.pkl'', PStr ''obj2.pkl''])]"
    by (simp add: fresh_def scenario_manifest_def)
  have h2: "\<not> finished (fresh scenario_fs scenario_manifest)"
    by (simp add: fresh_def)
  show ?thesis
    using cplist_get_inserts_reviewed [OF h1 h2]
    by (simp add: fresh_def scenario_manifest_def)
qed

section \<open>Loading a record\<close>

text \<open>
  C5. A load request whose identifier (the decoded, escaped token) is not in the
  manifest's list of checkplots is answered with the error envelope whose message is
  "This checkplot doesn't exist."; nothing is submitted to the worker pool and the storage
  is left as it was, whatever it holds: the answer is the same for every storage.
\<close>

theorem load_unknown_identifier:
  assumes "tok \<noteq> []" and "b64decode H tok = Some name"
      and "field p ''checkplots'' = Some (PList cps)"
      and "PStr (xhtml_escape name) \<notin> set cps"
  shows "fst (cp_get H h tok (fresh f p)) = Inr ()
       \<and> sent (snd (cp_get H h tok (fresh f p)))
           = Some (200, [envelope ''error'' doesnt_exist_msg (readonly h) PNone])
       \<and> submitted (snd (cp_get H h tok (fresh f p))) = []
       \<and> fs (snd (cp_get H h tok (fresh f p))) = f"
proof -
  obtain kvs where p: "p = PDict kvs" using assms(3) by (cases p) auto
  show ?thesis using assms
    by (simp add: p cp_get_def in_project_def b64_text_def fresh_def action_defs Let_def)
qed

text \<open>The witness: \<^verbatim>\<open>zzz.pkl\<close> is not in the manifest, and a record file of that name
  is on disk.\<close>

theorem load_unknown_identifier_witness:
  "sent (snd (cp_get scenario_host (scenario_handler False) ''enp6LnBrbA==''
       (fresh [''/p/zzz.pkl'' \<mapsto> PickleFile scenario_record] scenario_manifest)))
     = Some (200, [envelope ''error'' ''This checkplot doesn't exist.'' False PNone])
   \<and> submitted (snd (cp_get scenario_host (scenario_handler False) ''enp6LnBrbA==''
       (fresh [''/p/zzz.pkl'' \<mapsto> PickleFile scenario_record] scenario_manifest))) = []
   \<and> fs (snd (cp_get scenario_host (scenario_handler False) ''enp6LnBrbA==''
       (fresh [''/p/zzz.pkl'' \<mapsto> PickleFile scenario_record] scenario_manifest)))
       ''/p/zzz.pkl'' = Some (PickleFile scenario_record)"
proof -
  have h1: "''enp6LnBrbA=='' \<noteq> []" by simp
  have h2: "b64decode scenario_host ''enp6LnBrbA=='' = Some ''zzz.pkl''"
    by (simp add: scenario_host_def)
  have h3: "field scenario_manifest ''checkplots''
              = Some (PList [PStr ''obj1.pkl'', PStr ''obj2.pkl''])"
    by (simp add: scenario_manifest_def)
  have h4: "PStr (xhtml_escape ''zzz.pkl'') \<notin> set [PStr ''obj1.pkl'', PStr ''obj2.pkl'']"
    by simp
  show ?thesis
    using load_unknown_identifier [OF h1 h2 h3 h4,
      of "scenario_handler False" "[''/p/zzz.pkl'' \<mapsto> PickleFile scenario_record]"]
    by (simp add: scenario_handler_def doesnt_exist_msg_def)
qed

text \<open>
  C4. Scenario A of the spec: \<^verbatim>\<open>obj1.pkl\<close> is in the manifest and the storage is empty.
  The answer that goes out is the envelope with the message "couldn't find checkplot
  /p/obj1.pkl", which is not the message of an unknown identifier. The request is not
  over with that: \<^verbatim>\<open>get\<close> goes on after \<^verbatim>\<open>self.finish()\<close>, hands the read of the
  missing file to the worker pool, and ends with the exception of that task.
\<close>

theorem load_missing_file_still_submits:
  "sent (snd (cp_get scenario_host (scenario_handler False) ''b2JqMS5wa2w=''
                (fresh Map.empty scenario_manifest)))
     = Some (200, [PDict [(PStr ''status'', PStr ''error''),
                          (PStr ''message'', PStr ''couldn't find checkplot /p/obj1.pkl''),
                          (PStr ''result'', PNone)]])
   \<and> submitted (snd (cp_get scenario_host (scenario_handler False) ''b2JqMS5wa2w=''
                (fresh Map.empty scenario_manifest)))
     = [ReadPickle ''/p/obj1.pkl'']
   \<and> fst (cp_get scenario_host (scenario_handler False) ''b2JqMS5wa2w=''
                (fresh Map.empty scenario_manifest))
     = Inl (IOError ''/p/obj1.pkl'')"
  by (simp add: get_defs fresh_def action_defs task_defs Let_def scenario_defs)

text \<open>
  C9. In the same scenario the envelope written by \<^verbatim>\<open>CheckplotHandler.get\<close>, and the
  one written by \<^verbatim>\<open>LCToolHandler.get\<close>, has the three keys \<^verbatim>\<open>status\<close>,
  \<^verbatim>\<open>message\<close> and \<^verbatim>\<open>result\<close>: the key \<^verbatim>\<open>readonly\<close> is not in it.
\<close>

theorem load_missing_file_envelope_keys:
  "map keys (chunks (snd (cp_get scenario_host (scenario_handler False) ''b2JqMS5wa2w=''
                (fresh Map.empty scenario_manifest))))
     = [[PStr ''status'', PStr ''message'', PStr ''result'']]
   \<and> map keys (chunks (snd (lctool_get scenario_host (scenario_handler False) scenario_bls
                ''b2JqMS5wa2w='' (fresh Map.empty scenario_manifest))))
     = [[PStr ''status'', PStr ''message'', PStr ''result'']]
   \<and> map (\<lambda>c. field c ''readonly'')
         (chunks (snd (cp_get scenario_host (scenario_handler False) ''b2JqMS5wa2w=''
                (fresh Map.empty scenario_manifest))))
     = [None]"
  by (simp add: get_defs fresh_def action_defs task_defs Let_def scenario_defs)

text \<open>
  C3. A load of \<^verbatim>\<open>obj1.pkl\<close> whose file holds bytes that are not a record: the worker
  task raises, \<^verbatim>\<open>get\<close> has no handler around the \<^verbatim>\<open>yield\<close>, and the exception
  leaves the method with nothing written. The same happens for an error in the handler
  itself, as for a record without \<^verbatim>\<open>'objectid'\<close>. No envelope goes out in either
  case.
\<close>

theorem load_exception_propagates:
  "fst (serve (cp_get scenario_host (scenario_handler False) ''b2JqMS5wa2w='')
          (fresh [''/p/obj1.pkl'' \<mapsto> OtherFile ''junk''] scenario_manifest))
     = Inl UnpicklingError
   \<and> sent (snd (serve (cp_get scenario_host (scenario_handler False) ''b2JqMS5wa2w='')
          (fresh [''/p/obj1.pkl'' \<mapsto> OtherFile ''junk''] scenario_manifest))) = None
   \<and> fst (serve (cp_get scenario_host (scenario_handler False) ''b2JqMS5wa2w='')
          (fresh [''/p/obj1.pkl'' \<mapsto> PickleFile (PDict [])] scenario_manifest))
     = Inl (KeyError (PStr ''objectid''))
   \<and> sent (snd (serve (cp_get scenario_host (scenario_handler False) ''b2JqMS5wa2w='')
          (fresh [''/p/obj1.pkl'' \<mapsto> PickleFile (PDict [])] scenario_manifest))) = None"
  by (simp add: serve_def get_defs fresh_def action_defs task_defs Let_def scenario_defs
        load_result_def ebind_def)

section \<open>Updating a record\<close>


text \<open>
  C7. The update of scenario D with an image asked for, when the render fails. With a
  renderer that raises, the payload is merged and stays on disk, and the answer is the 500
  envelope "checkplot update failed because of an exception": the merge is not reported
  as a success and nothing flags the render. With a renderer that produces nothing and an
  image from an earlier render at \<^verbatim>\<open>/p/obj1.png\<close>, the render task is submitted, the
  file is still the earlier one, and \<^verbatim>\<open>cpfpng\<close> in the success envelope is the path,
  not the failure marker: the result \<^verbatim>\<open>pngdone\<close> of the task is not looked at.
\<close>

theorem render_failure_not_flagged:
  "submitted (snd (cp_post scenario_host_raising (scenario_handler False) scenario_update_png
             ''b2JqMS5wa2w='' (fresh scenario_fs scenario_manifest)))
     = [PickleUpdate ''/p/obj1.pkl''
          (PDict [(PStr ''varinfo'', PDict [(PStr ''vartags'', PStr ''EB'')]),
                  (PStr ''objectinfo'', PDict [(PStr ''objecttags'', PStr ''star'')]),
                  (PStr ''comments'', PList [PStr ''looks periodic''])]),
        PickleToPng ''/p/obj1.pkl'' ''/p/obj1.png'']
   \<and> stored_field (fs (snd (cp_post scenario_host_raising (scenario_handler False)
             scenario_update_png ''b2JqMS5wa2w='' (fresh scenario_fs scenario_manifest)))
           ''/p/obj1.pkl'')
        (PStr ''comments'') = Some (PList [PStr ''looks periodic''])
   \<and> sent (snd (cp_post scenario_host_raising (scenario_handler False) scenario_update_png
             ''b2JqMS5wa2w='' (fresh scenario_fs scenario_manifest)))
     = Some (500, [envelope ''error'' ''checkplot update failed because of an exception''
                     False PNone])
   \<and> submitted (snd (cp_post scenario_host (scenario_handler False) scenario_update_png
             ''b2JqMS5wa2w='' (fresh scenario_fs_png scenario_manifest)))
     = [PickleUpdate ''/p/obj1.pkl''
          (PDict [(PStr ''varinfo'', PDict [(PStr ''vartags'', PStr ''EB'')]),
                  (PStr ''objectinfo'', PDict [(PStr ''objecttags'', PStr ''star'')]),
                  (PStr ''comments'', PList [PStr ''looks periodic''])]),
        PickleToPng ''/p/obj1.pkl'' ''/p/obj1.png'']
   \<and> fs (snd (cp_post scenario_host (scenario_handler False) scenario_update_png
             ''b2JqMS5wa2w='' (fresh scenario_fs_png scenario_manifest))) ''/p/obj1.png''
     = Some (PngFile ''earlier'')
   \<and> sent (snd (cp_post scenario_host (scenario_handler False) scenario_update_png
             ''b2JqMS5wa2w='' (fresh scenario_fs_png scenario_manifest)))
     = Some (200, [update_envelope scenario_host (scenario_handler False)
                     (PStr ''/p/obj1.pkl'') scenario_payload (PStr ''/p/obj1.png'')])"
  by (simp add: post_defs fresh_def action_defs task_defs Let_def scenario_defs
        project_path_def dirname_def path_join_def png_path_def)

text \<open>
  C8, as the code has it. With read-only mode off, an identifier and a payload that
  parses to a JSON object without one of the keys \<^verbatim>\<open>varinfo\<close>, \<^verbatim>\<open>objectinfo\<close>,
  \<^verbatim>\<open>comments\<close>, the \<^verbatim>\<open>try\<close> block raises \<^verbatim>\<open>KeyError\<close> for the first key that is
  missing; the \<^verbatim>\<open>except\<close> clause answers with the 500 envelope; no task is submitted
  and the storage is as it was.
\<close>

theorem update_missing_key:
  assumes ro: "\<not> readonly h"
      and tok: "b64decode H tok = Some name" "name \<noteq> []"
      and arg: "arguments req ''cpcontents'' = Some s" "s \<noteq> []"
      and js: "json_loads H s = Some (PDict pk)"
      and missing: "PStr ''varinfo'' \<notin> fst ` set pk \<or> PStr ''objectinfo'' \<notin> fst ` set pk
                    \<or> PStr ''comments'' \<notin> fst ` set pk"
  shows "fst (cp_post_try H h req name (fresh f p))
           = Inl (KeyError (PStr (if PStr ''varinfo'' \<notin> fst ` set pk then ''varinfo''
                                  else if PStr ''objectinfo'' \<notin> fst ` set pk then ''objectinfo''
                                  else ''comments'')))
       \<and> fst (cp_post H h req tok (fresh f p)) = Inr ()
       \<and> sent (snd (cp_post H h req tok (fresh f p)))
           = Some (500, [envelope ''error'' ''checkplot update failed because of an exception''
                           (readonly h) PNone])
       \<and> submitted (snd (cp_post H h req tok (fresh f p))) = []
       \<and> fs (snd (cp_post H h req tok (fresh f p))) = f"
proof -
  have iff: "\<And>k. (k \<notin> fst ` set pk) = (map_of pk k = None)"
    by (simp add: map_of_eq_None_iff)
  consider (v) "map_of pk (PStr ''varinfo'') = None"
    | (o) x where "map_of pk (PStr ''varinfo'') = Some x"
                  "map_of pk (PStr ''objectinfo'') = None"
    | (c) x y where "map_of pk (PStr ''varinfo'') = Some x"
                    "map_of pk (PStr ''objectinfo'') = Some y"
                    "map_of pk (PStr ''comments'') = None"
    using missing unfolding iff by fastforce
  then show ?thesis
  proof cases
    case v
    then show ?thesis using ro tok arg js
      by (simp add: iff post_defs fresh_def action_defs Let_def)
  next
    case o
    then show ?thesis using ro tok arg js
      by (simp add: iff post_defs fresh_def action_defs Let_def)
  next
    case c
    then show ?thesis using ro tok arg js
      by (simp add: iff post_defs fresh_def action_defs Let_def)
  qed
qed

text \<open>The witness: an update of \<^verbatim>\<open>obj1.pkl\<close> with the payload \<^verbatim>\<open>{}\<close>.\<close>

theorem update_missing_key_witness:
  "sent (snd (cp_post scenario_host (scenario_handler False) scenario_update_empty
             ''b2JqMS5wa2w='' (fresh scenario_fs scenario_manifest)))
     = Some (500, [envelope ''error'' ''checkplot update failed because of an exception''
                           False PNone])
   \<and> fs (snd (cp_post scenario_host (scenario_handler False) scenario_update_empty
             ''b2JqMS5wa2w='' (fresh scenario_fs scenario_manifest))) = scenario_fs
   \<and> fst (cp_post_try scenario_host (scenario_handler False) scenario_update_empty
             ''obj1.pkl'' (fresh scenario_fs scenario_manifest))
       = Inl (KeyError (PStr ''varinfo''))"
proof -
  have h1: "\<not> readonly (scenario_handler False)" by (simp add: scenario_handler_def)
  have h3: "''obj1.pkl'' \<noteq> []" by simp
  have h4: "arguments scenario_update_empty ''cpcontents'' = Some ''{}''"
    by (simp add: scenario_update_empty_def)
  have h5: "''{}'' \<noteq> []" by simp
  have h7: "PStr ''varinfo'' \<notin> fst ` set [] \<or> PStr ''objectinfo'' \<notin> fst ` set []
                    \<or> PStr ''comments'' \<notin> fst ` set ([] :: (pyval \<times> pyval) list)"
    by simp
  show ?thesis
    using update_missing_key [where f = scenario_fs and p = scenario_manifest,
              OF h1 scenario_decode h3 h4 h5 scenario_parse_empty h7]
    by (simp add: scenario_handler_def)
qed

text \<open>
  The counterexample to C8 as stated: the same request in read-only mode. The answer
  that goes out is the 400 envelope of read-only mode; the \<^verbatim>\<open>KeyError\<close> is caught, but
  the \<^verbatim>\<open>except\<close> clause cannot write a second envelope.
\<close>

theorem missing_key_readonly_counterexample:
  "sent (snd (cp_post scenario_host (scenario_handler True) scenario_update_empty
             ''b2JqMS5wa2w='' (fresh scenario_fs scenario_manifest)))
     = Some (400, [envelope ''error'' readonly_msg True PNone])
   \<and> fst (cp_post scenario_host (scenario_handler True) scenario_update_empty
             ''b2JqMS5wa2w='' (fresh scenario_fs scenario_manifest))
     = Inl (RuntimeError ''Cannot write() after finish()'')"
  by (simp add: post_defs fresh_def action_defs Let_def scenario_defs)

section \<open>Read-only mode\<close>

text \<open>
  C1. In read-only mode both \<^verbatim>\<open>post\<close> methods answer with the 400 envelope, and then
  go on: there is no \<^verbatim>\<open>return\<close> after \<^verbatim>\<open>self.finish()\<close>. A manifest write for
  \<^verbatim>\<open>obj1\<close> with the changes \<^verbatim>\<open>{}\<close> rewrites the list file with the new entry, and the
  update of scenario D is merged into the record file, whose \<^verbatim>\<open>comments\<close> field was
  not there before.
\<close>

theorem readonly_post_still_writes:
  "sent (snd (cplist_post scenario_host (scenario_handler True)
           \<lparr>arguments = [''objectid'' \<mapsto> ''obj1'', ''changes'' \<mapsto> ''{}'']\<rparr>
           (fresh [''/p/checkplot-filelist.json'' \<mapsto> JsonFile scenario_manifest]
              scenario_manifest)))
     = Some (400, [envelope ''error'' readonly_msg True PNone])
   \<and> fs (snd (cplist_post scenario_host (scenario_handler True)
           \<lparr>arguments = [''objectid'' \<mapsto> ''obj1'', ''changes'' \<mapsto> ''{}'']\<rparr>
           (fresh [''/p/checkplot-filelist.json'' \<mapsto> JsonFile scenario_manifest]
              scenario_manifest)))
        ''/p/checkplot-filelist.json''
     = Some (JsonFile (PDict [(PStr ''checkplots'', PList [PStr ''obj1.pkl'', PStr ''obj2.pkl'']),
                              (PStr ''reviewed'', PDict [(PStr ''obj1'', PDict [])])]))
   \<and> sent (snd (cp_post scenario_host (scenario_handler True) scenario_update
             ''b2JqMS5wa2w='' (fresh scenario_fs scenario_manifest)))
     = Some (400, [envelope ''error'' readonly_msg True PNone])
   \<and> stored_field (fs (snd (cp_post scenario_host (scenario_handler True) scenario_update
             ''b2JqMS5wa2w='' (fresh scenario_fs scenario_manifest))) ''/p/obj1.pkl'')
         (PStr ''comments'') = Some (PList [PStr ''looks periodic''])
   \<and> stored_field (scenario_fs ''/p/obj1.pkl'') (PStr ''comments'') = None"
  by (simp add: cplist_post_def post_defs fresh_def action_defs task_defs Let_def scenario_defs
       xhtml_escape_arg_def ensure_reviewed_def set_reviewed_def dump_project_def
       project_path_def dirname_def path_join_def)

section \<open>Tool dispatch\<close>




end
